theory Spec2Isabelle
  imports Main "HOL-Library.Multiset"
begin

section \<open>Strings, the emoji pool and the emoji pattern\<close>

text \<open>
  A Python \<open>str\<close> is a sequence of Unicode code points, and the pattern of
  \<open>emoji_manager.py\<close> is a set of code-point ranges; a text is therefore a list of
  code points (natural numbers), not a list of bytes.
\<close>

type_synonym codepoint = nat
type_synonym str = "codepoint list"

definition EMOJI_ANIMALS_NATURE :: "str list" where
  "EMOJI_ANIMALS_NATURE =
    [[0x1F436], [0x1F431], [0x1F42D], [0x1F439], [0x1F430], [0x1F98A], [0x1F43B], [0x1F43C],
     [0x1F428], [0x1F42F], [0x1F981], [0x1F42E], [0x1F437], [0x1F438], [0x1F435], [0x1F984],
     [0x1F414], [0x1F427], [0x1F426], [0x1F424]]"

definition EMOJI_FOOD_DRINK :: "str list" where
  "EMOJI_FOOD_DRINK =
    [[0x1F34F], [0x1F34E], [0x1F350], [0x1F34A], [0x1F34B], [0x1F34C], [0x1F349], [0x1F347],
     [0x1F353], [0x1FAD0], [0x1F348], [0x1F352], [0x1F351], [0x1F96D], [0x1F34D], [0x1F965],
     [0x1F95D], [0x1F345], [0x1F346], [0x1F951]]"

definition EMOJI_ACTIVITY :: "str list" where
  "EMOJI_ACTIVITY =
    [[0x26BD], [0x1F3C0], [0x1F3C8], [0x26BE], [0x1F3BE], [0x1F3D0], [0x1F3C9], [0x1F3B1],
     [0x1F3D3], [0x1F3F8], [0x1F945], [0x1F3D2], [0x1F3D1], [0x1F3CF], [0x26F3], [0x1F3F9],
     [0x1F3A3], [0x1F93F], [0x1F94A], [0x1F94B]]"

definition EMOJI_OBJECTS :: "str list" where
  "EMOJI_OBJECTS =
    [[0x231A], [0x1F4F1], [0x1F4BB], [0x1F5A8, 0xFE0F], [0x1F579, 0xFE0F], [0x1F3AE], [0x1F4F7],
     [0x1F4F8], [0x1F4F9], [0x1F3A5], [0x1F4FA], [0x1F4FB], [0x1F399, 0xFE0F], [0x1F39A, 0xFE0F],
     [0x1F39B, 0xFE0F], [0x260E, 0xFE0F], [0x1F4DE], [0x1F4DF], [0x1F4E0], [0x1F50B]]"

definition EMOJI_PLACES :: "str list" where
  "EMOJI_PLACES =
    [[0x1F697], [0x1F695], [0x1F699], [0x1F68C], [0x1F68E], [0x1F3CE, 0xFE0F], [0x1F693],
     [0x1F691], [0x1F692], [0x1F690], [0x1F6FB], [0x1F69A], [0x1F69B], [0x1F69C],
     [0x1F3CD, 0xFE0F], [0x1F6F5], [0x1F6B2], [0x1F6F4], [0x1F6A8], [0x1F694]]"

definition ANDROID_EMOJI_POOL :: "str list" where
  "ANDROID_EMOJI_POOL =
     EMOJI_ANIMALS_NATURE @ EMOJI_FOOD_DRINK @ EMOJI_ACTIVITY @ EMOJI_OBJECTS @ EMOJI_PLACES"

text \<open>
  The character class of \<open>EMOJI_REGEX\<close>: the eleven ranges between the brackets, in the
  order of the source. The pattern is the class followed by \<open>+\<close>.
\<close>

definition emoji_class :: "codepoint \<Rightarrow> bool" where
  "emoji_class c \<longleftrightarrow>
     (0x1F300 \<le> c \<and> c \<le> 0x1F5FF) \<or>
     (0x1F600 \<le> c \<and> c \<le> 0x1F64F) \<or>
     (0x1F680 \<le> c \<and> c \<le> 0x1F6FF) \<or>
     (0x1F700 \<le> c \<and> c \<le> 0x1F77F) \<or>
     (0x1F780 \<le> c \<and> c \<le> 0x1F7FF) \<or>
     (0x1F800 \<le> c \<and> c \<le> 0x1F8FF) \<or>
     (0x1F900 \<le> c \<and> c \<le> 0x1F9FF) \<or>
     (0x1FA00 \<le> c \<and> c \<le> 0x1FA6F) \<or>
     (0x1FA70 \<le> c \<and> c \<le> 0x1FAFF) \<or>
     (0x2702 \<le> c \<and> c \<le> 0x27B0) \<or>
     (0x24C2 \<le> c \<and> c \<le> 0x1F251)"

text \<open>
  \<open>EMOJI_REGEX.findall\<close>: the scan goes left to right; at a code point of the class the
  greedy \<open>+\<close> takes the whole run of class members, the run is one match and the scan
  goes on behind it; at any other code point the scan moves one position on.
\<close>

function findall :: "str \<Rightarrow> str list" where
  "findall [] = []"
| "findall (c # cs) =
     (if emoji_class c
      then (c # takeWhile emoji_class cs) # findall (dropWhile emoji_class cs)
      else findall cs)"
  by pat_completeness auto
termination
  by (relation "measure length") (auto simp: length_dropWhile_le less_Suc_eq_le)

text \<open>
  \<open>EMOJI_REGEX.sub(repl, text)\<close> with a function \<open>repl\<close>: the same scan; each match is
  replaced by the result of the function on it, everything else is copied.
\<close>

function sub :: "(str \<Rightarrow> str) \<Rightarrow> str \<Rightarrow> str" where
  "sub repl [] = []"
| "sub repl (c # cs) =
     (if emoji_class c
      then repl (c # takeWhile emoji_class cs) @ sub repl (dropWhile emoji_class cs)
      else c # sub repl cs)"
  by pat_completeness auto
termination
  by (relation "measure (\<lambda>(repl, t). length t)") (auto simp: length_dropWhile_le less_Suc_eq_le)

definition extract_emojis :: "str \<Rightarrow> str list" where
  "extract_emojis t = findall t"

section \<open>The mapping builder\<close>

datatype error = IndexError | OSError | ParseError | UnicodeEncodeError

type_synonym emoji_map = "str \<rightharpoonup> str"

text \<open>
  One iteration of the loop of \<open>build_emoji_map\<close> on the dictionary and the deque.
  \<open>popleft\<close> on an empty deque raises \<open>IndexError\<close>.
\<close>

fun build_step :: "emoji_map \<times> str list \<Rightarrow> str \<Rightarrow> error + emoji_map \<times> str list" where
  "build_step (emoji_map, pool) emoji =
     (if emoji \<notin> dom emoji_map
      then (case pool of
              [] \<Rightarrow> Inl IndexError
            | new_emoji # rest \<Rightarrow> Inr (emoji_map(emoji \<mapsto> new_emoji), rest @ [new_emoji]))
      else Inr (emoji_map, pool))"

fun build_loop :: "str list \<Rightarrow> emoji_map \<times> str list \<Rightarrow> error + emoji_map \<times> str list" where
  "build_loop [] st = Inr st"
| "build_loop (emoji # emojis) st =
     (case build_step st emoji of
        Inl e \<Rightarrow> Inl e
      | Inr st' \<Rightarrow> build_loop emojis st')"

definition build_emoji_map :: "str list \<Rightarrow> str list \<Rightarrow> error + emoji_map" where
  "build_emoji_map original_emojis emoji_pool =
     (case build_loop original_emojis (Map.empty, emoji_pool) of
        Inl e \<Rightarrow> Inl e
      | Inr (emoji_map, pool) \<Rightarrow> Inr emoji_map)"

section \<open>Substitution and the distinct-emoji sequence\<close>

definition replace_fn :: "emoji_map \<Rightarrow> str \<Rightarrow> str" where
  "replace_fn emoji_map emoji = (case emoji_map emoji of Some v \<Rightarrow> v | None \<Rightarrow> emoji)"

definition replace_emojis :: "str \<Rightarrow> emoji_map \<Rightarrow> str" where
  "replace_emojis t emoji_map = sub (replace_fn emoji_map) t"

text \<open>The loop of \<open>get_emojis_in_order\<close> on the pair of \<open>seen\<close> and \<open>ordered\<close>.\<close>

fun order_loop :: "str list \<Rightarrow> str set \<times> str list \<Rightarrow> str set \<times> str list" where
  "order_loop [] st = st"
| "order_loop (em # ems) (seen, ordered) =
     (if em \<notin> seen
      then order_loop ems (insert em seen, ordered @ [em])
      else order_loop ems (seen, ordered))"

definition get_emojis_in_order :: "str \<Rightarrow> str list" where
  "get_emojis_in_order t = snd (order_loop (findall t) ({}, []))"


section \<open>Format handlers\<close>

text \<open>
  The standard-library parsers and serialisers (\<open>json\<close>, \<open>csv\<close>,
  \<open>xml.etree.ElementTree\<close>, \<open>html.parser\<close>, \<open>os.path.splitext\<close>, \<open>str.lower\<close>)
  are not part of the repository. They are parameters of the model, collected in the
  record \<open>stdlib\<close> below; what the repository does with their results is modelled from
  \<open>emoji_manager.py\<close>.
\<close>

definition ascii :: "string \<Rightarrow> str" where
  "ascii s = map of_char s"

subsection \<open>JSON\<close>

text \<open>
  The values \<open>json.load\<close> returns: \<open>None\<close>, \<open>bool\<close>, \<open>int\<close>, \<open>float\<close> (the type
  parameter), \<open>str\<close>, \<open>list\<close> and \<open>dict\<close> (keys are strings, in insertion order).
\<close>

datatype 'f json =
    JNone
  | JBool bool
  | JInt int
  | JFloat 'f
  | JStr str
  | JList "'f json list"
  | JDict "(str \<times> 'f json) list"

primrec recursive_replace :: "emoji_map \<Rightarrow> 'f json \<Rightarrow> 'f json" where
  "recursive_replace emoji_map (JStr obj) = JStr (replace_emojis obj emoji_map)"
| "recursive_replace emoji_map (JList obj) = JList (map (recursive_replace emoji_map) obj)"
| "recursive_replace emoji_map (JDict obj) =
     JDict (map (map_prod id (recursive_replace emoji_map)) obj)"
| "recursive_replace emoji_map JNone = JNone"
| "recursive_replace emoji_map (JBool b) = JBool b"
| "recursive_replace emoji_map (JInt i) = JInt i"
| "recursive_replace emoji_map (JFloat x) = JFloat x"

subsection \<open>XML\<close>

text \<open>
  An \<open>ElementTree\<close> element: tag, attributes, \<open>text\<close> and \<open>tail\<close> (each a string or
  \<open>None\<close>) and the child elements. \<open>if elem.text:\<close> is false on \<open>None\<close> and on the
  empty string.
\<close>

datatype element =
  Element (tag: str) (attrib: "(str \<times> str) list") (etext: "str option") (etail: "str option")
    (children: "element list")

definition replace_if_truthy :: "emoji_map \<Rightarrow> str option \<Rightarrow> str option" where
  "replace_if_truthy emoji_map field =
     (case field of
        None \<Rightarrow> None
      | Some s \<Rightarrow> if s \<noteq> [] then Some (replace_emojis s emoji_map) else Some s)"

primrec recursive_xml :: "emoji_map \<Rightarrow> element \<Rightarrow> element" where
  "recursive_xml emoji_map (Element tg attrs tx tail ch) =
     Element tg attrs (replace_if_truthy emoji_map tx) (replace_if_truthy emoji_map tail)
       (map (recursive_xml emoji_map) ch)"

subsection \<open>HTML\<close>

text \<open>
  The handler methods of \<open>html.parser.HTMLParser\<close>, as calls with their arguments. An
  attribute without a value has the value \<open>None\<close>.
\<close>

datatype html_event =
    Starttag str "(str \<times> str option) list"
  | Endtag str
  | Startendtag str "(str \<times> str option) list"
  | Data str
  | Entityref str
  | Charref str
  | Comment str
  | Decl str
  | Pi str
  | Unknown_decl str

text \<open>
  The lexical items the tokenizer of \<open>HTMLParser\<close> finds in its input: markup, runs of
  character data in which references are recognised (\<open>TText\<close>, given as the raw source
  text of the run), and the raw content of \<open>script\<close> and \<open>style\<close> elements (\<open>TCData\<close>).
\<close>

datatype html_token =
    TStarttag str "(str \<times> str option) list"
  | TEndtag str
  | TStartendtag str "(str \<times> str option) list"
  | TText str
  | TCData str
  | TComment str
  | TDecl str
  | TPi str
  | TUnknown_decl str

record 'f stdlib =
  json_load :: "str \<Rightarrow> error + 'f json"
  json_dump :: "'f json \<Rightarrow> str list"
  csv_reader :: "str \<Rightarrow> error + str list list"
  csv_writer :: "str list list \<Rightarrow> str"
  ET_parse :: "str \<Rightarrow> error + element"
  ET_write :: "element \<Rightarrow> str"
  html_tokenize :: "str \<Rightarrow> html_token list"
  html_unescape :: "str \<Rightarrow> str"
  html_split_refs :: "str \<Rightarrow> html_event list"
  splitext :: "str \<Rightarrow> str \<times> str"
  lower :: "str \<Rightarrow> str"

text \<open>
  \<open>HTMLParser.goahead\<close>, the calls it makes for one lexical item. With
  \<open>convert_charrefs\<close> set, a run of character data is passed to \<open>handle_data\<close> after
  \<open>html.unescape\<close>, and \<open>handle_entityref\<close> and \<open>handle_charref\<close> are not called;
  without it the run is split at its references.
\<close>

fun goahead :: "'f stdlib \<Rightarrow> bool \<Rightarrow> html_token \<Rightarrow> html_event list" where
  "goahead lib cc (TStarttag t attrs) = [Starttag t attrs]"
| "goahead lib cc (TEndtag t) = [Endtag t]"
| "goahead lib cc (TStartendtag t attrs) = [Startendtag t attrs]"
| "goahead lib cc (TText raw) =
     (if cc then [Data (html_unescape lib raw)] else html_split_refs lib raw)"
| "goahead lib cc (TCData raw) = [Data raw]"
| "goahead lib cc (TComment c) = [Comment c]"
| "goahead lib cc (TDecl d) = [Decl d]"
| "goahead lib cc (TPi d) = [Pi d]"
| "goahead lib cc (TUnknown_decl d) = [Unknown_decl d]"

record MyHTMLParser =
  convert_charrefs :: bool
  emoji_map :: emoji_map
  result :: "str list"

text \<open>
  \<open>__init__\<close>: \<open>super().__init__()\<close> is called without arguments, so
  \<open>convert_charrefs\<close> has its default, \<open>True\<close>.
\<close>

definition MyHTMLParser_init :: "emoji_map \<Rightarrow> MyHTMLParser" where
  "MyHTMLParser_init m = \<lparr>convert_charrefs = True, emoji_map = m, result = []\<rparr>"

text \<open>The f-string \<open>f' {k}="{v}"'\<close>; \<open>None\<close> is formatted as the word \<open>None\<close>.\<close>

definition format_attr :: "str \<times> str option \<Rightarrow> str" where
  "format_attr kv =
     (case kv of (k, v) \<Rightarrow>
        ascii '' '' @ k @ [0x3D, 0x22] @ (case v of None \<Rightarrow> ascii ''None'' | Some s \<Rightarrow> s) @ [0x22])"

definition handle_starttag :: "MyHTMLParser \<Rightarrow> str \<Rightarrow> (str \<times> str option) list \<Rightarrow> MyHTMLParser" where
  "handle_starttag self t attrs =
     (let attr_str = concat (map format_attr attrs)
      in self\<lparr>result := result self @ [ascii ''<'' @ t @ attr_str @ ascii ''>'']\<rparr>)"

definition handle_endtag :: "MyHTMLParser \<Rightarrow> str \<Rightarrow> MyHTMLParser" where
  "handle_endtag self t = self\<lparr>result := result self @ [ascii ''</'' @ t @ ascii ''>'']\<rparr>"

definition handle_data :: "MyHTMLParser \<Rightarrow> str \<Rightarrow> MyHTMLParser" where
  "handle_data self d = self\<lparr>result := result self @ [replace_emojis d (emoji_map self)]\<rparr>"

definition handle_entityref :: "MyHTMLParser \<Rightarrow> str \<Rightarrow> MyHTMLParser" where
  "handle_entityref self name = self\<lparr>result := result self @ [ascii ''&'' @ name @ ascii '';'']\<rparr>"

definition handle_charref :: "MyHTMLParser \<Rightarrow> str \<Rightarrow> MyHTMLParser" where
  "handle_charref self name = self\<lparr>result := result self @ [ascii ''&#'' @ name @ ascii '';'']\<rparr>"

definition get_html :: "MyHTMLParser \<Rightarrow> str" where
  "get_html self = concat (result self)"

text \<open>
  Method resolution for one call: the five methods \<open>MyHTMLParser\<close> defines; the base
  class's \<open>handle_startendtag\<close>, which calls \<open>handle_starttag\<close> and \<open>handle_endtag\<close>;
  and the base class's \<open>handle_comment\<close>, \<open>handle_decl\<close>, \<open>handle_pi\<close> and
  \<open>unknown_decl\<close>, which do nothing.
\<close>

fun handle :: "MyHTMLParser \<Rightarrow> html_event \<Rightarrow> MyHTMLParser" where
  "handle self (Starttag t attrs) = handle_starttag self t attrs"
| "handle self (Endtag t) = handle_endtag self t"
| "handle self (Startendtag t attrs) = handle_endtag (handle_starttag self t attrs) t"
| "handle self (Data d) = handle_data self d"
| "handle self (Entityref name) = handle_entityref self name"
| "handle self (Charref name) = handle_charref self name"
| "handle self (Comment c) = self"
| "handle self (Decl d) = self"
| "handle self (Pi d) = self"
| "handle self (Unknown_decl d) = self"

definition feed :: "'f stdlib \<Rightarrow> MyHTMLParser \<Rightarrow> html_token list \<Rightarrow> MyHTMLParser" where
  "feed lib self toks = foldl handle self (concat (map (goahead lib (convert_charrefs self)) toks))"


subsection \<open>The handlers on file contents\<close>

text \<open>
  A file opened with \<open>open(dst, "w", encoding="utf-8")\<close> encodes what is written to it
  with the strict error handler: a string with a surrogate code point (U+D800 to U+DFFF)
  cannot be encoded, and \<open>write\<close> raises \<open>UnicodeEncodeError\<close> without writing any of it.
\<close>

definition encodable :: "str \<Rightarrow> bool" where
  "encodable s = list_all (\<lambda>c. \<not> (0xD800 \<le> c \<and> c \<le> 0xDFFF)) s"

text \<open>
  \<open>json.dump\<close> writes the document chunk by chunk (\<open>for chunk in iterable: fp.write(chunk)\<close>).
  The second argument is what the file holds so far; the result is the exception raised,
  if any, and what the file holds when it is closed.
\<close>

fun write_chunks :: "str list \<Rightarrow> str \<Rightarrow> error option \<times> str" where
  "write_chunks [] written = (None, written)"
| "write_chunks (chunk # chunks) written =
     (if encodable chunk then write_chunks chunks (written @ chunk)
      else (Some UnicodeEncodeError, written))"

text \<open>
  The JSON handler is given the content of the source file. It returns the exception
  raised, if any, and the content of the destination file, \<open>None\<close> when the file was not
  opened. The destination is opened, and so created empty, once \<open>json.load\<close> has
  returned; when a chunk cannot be encoded the file keeps the chunks written before it.
\<close>

definition process_json_file ::
  "'f stdlib \<Rightarrow> str \<Rightarrow> emoji_map \<Rightarrow> error option \<times> str option" where
  "process_json_file lib src m =
     (case json_load lib src of
        Inl e \<Rightarrow> (Some e, None)
      | Inr data \<Rightarrow>
          (case write_chunks (json_dump lib (recursive_replace m data)) [] of
             (err, written) \<Rightarrow> (err, Some written)))"

text \<open>
  Each of the other handlers is given the content of the source file and returns the
  content it writes to the destination, or the error the parser raises.
\<close>

definition process_csv_file :: "'f stdlib \<Rightarrow> str \<Rightarrow> emoji_map \<Rightarrow> error + str" where
  "process_csv_file lib src m =
     (case csv_reader lib src of
        Inl e \<Rightarrow> Inl e
      | Inr reader \<Rightarrow>
          Inr (csv_writer lib (map (\<lambda>row. map (\<lambda>cell. replace_emojis cell m) row) reader)))"

definition process_txt_file :: "str \<Rightarrow> emoji_map \<Rightarrow> error + str" where
  "process_txt_file src m = Inr (replace_emojis src m)"

definition process_md_file :: "str \<Rightarrow> emoji_map \<Rightarrow> error + str" where
  "process_md_file src m = process_txt_file src m"

definition process_xml_file :: "'f stdlib \<Rightarrow> str \<Rightarrow> emoji_map \<Rightarrow> error + str" where
  "process_xml_file lib src m =
     (case ET_parse lib src of
        Inl e \<Rightarrow> Inl e
      | Inr root \<Rightarrow> Inr (ET_write lib (recursive_xml m root)))"

definition process_html_file :: "'f stdlib \<Rightarrow> str \<Rightarrow> emoji_map \<Rightarrow> error + str" where
  "process_html_file lib src m =
     Inr (get_html (feed lib (MyHTMLParser_init m) (html_tokenize lib src)))"

section \<open>The driver\<close>

text \<open>
  The directory \<open>main\<close> reads: the names \<open>os.listdir\<close> returns, which of them are
  regular files, and what \<open>load_file\<close> returns for each (the decoded content, or the
  error \<open>open\<close> or the decoder raises). The output directory is a different directory,
  so what the run writes does not change what it reads.
\<close>

record directory =
  listdir :: "str list"
  isfile :: "str \<Rightarrow> bool"
  load_file :: "str \<Rightarrow> error + str"

datatype notice = Processing str | No_emojis_found str | Unsupported_file_type str

text \<open>What a run has done so far: the files saved in the output directory and the lines printed.\<close>

record run =
  saved :: "str \<rightharpoonup> str"
  printed :: "notice list"

definition SUPPORTED_EXTS :: "str list" where
  "SUPPORTED_EXTS =
     map ascii [''.json'', ''.txt'', ''.md'', ''.csv'', ''.xml'', ''.html'', ''.htm'']"

definition startswith :: "str \<Rightarrow> str \<Rightarrow> bool" where
  "startswith s prefix \<longleftrightarrow> take (length prefix) s = prefix"

definition endswith :: "str \<Rightarrow> str list \<Rightarrow> bool" where
  "endswith s suffixes \<longleftrightarrow>
     list_ex (\<lambda>suffix. length suffix \<le> length s \<and> drop (length s - length suffix) s = suffix)
       suffixes"

definition print_notice :: "notice \<Rightarrow> run \<Rightarrow> run" where
  "print_notice n st = st\<lparr>printed := printed st @ [n]\<rparr>"

definition save_file :: "str \<Rightarrow> str \<Rightarrow> run \<Rightarrow> run" where
  "save_file filepath content st = st\<lparr>saved := (saved st)(filepath \<mapsto> content)\<rparr>"

text \<open>The \<open>if\<close>/\<open>elif\<close> chain of \<open>main\<close> on the extension.\<close>

definition dispatch :: "'f stdlib \<Rightarrow> str \<Rightarrow> str \<Rightarrow> emoji_map \<Rightarrow> run \<Rightarrow> error option \<times> run" where
  "dispatch lib filename src m st =
     (let ext = lower lib (snd (splitext lib filename));
          save = (\<lambda>r. case r of Inl e \<Rightarrow> (Some e, st)
                                | Inr content \<Rightarrow> (None, save_file filename content st))
      in if ext = ascii ''.json'' then
           (case process_json_file lib src m of
              (err, written) \<Rightarrow>
                (err, case written of None \<Rightarrow> st
                                    | Some content \<Rightarrow> save_file filename content st))
         else if ext = ascii ''.txt'' then save (process_txt_file src m)
         else if ext = ascii ''.md'' then save (process_md_file src m)
         else if ext = ascii ''.csv'' then save (process_csv_file lib src m)
         else if ext = ascii ''.xml'' then save (process_xml_file lib src m)
         else if ext \<in> set [ascii ''.html'', ascii ''.htm''] then save (process_html_file lib src m)
         else (None, print_notice (Unsupported_file_type filename) st))"

text \<open>
  The body of the \<open>for\<close> loop of \<open>main\<close> for one file. The result is the exception that
  ends the run, if one is raised, and what the run has done up to then.
\<close>

definition main_body :: "'f stdlib \<Rightarrow> directory \<Rightarrow> str \<Rightarrow> run \<Rightarrow> error option \<times> run" where
  "main_body lib dir filename st0 =
     (let st = print_notice (Processing filename) st0
      in case load_file dir filename of
           Inl e \<Rightarrow> (Some e, st)
         | Inr src \<Rightarrow>
             (let original_emojis = get_emojis_in_order src
              in if original_emojis = [] then (None, print_notice (No_emojis_found filename) st)
                 else (case build_emoji_map original_emojis ANDROID_EMOJI_POOL of
                         Inl e \<Rightarrow> (Some e, st)
                       | Inr m \<Rightarrow> dispatch lib filename src m st)))"

fun main_loop :: "'f stdlib \<Rightarrow> directory \<Rightarrow> str list \<Rightarrow> run \<Rightarrow> error option \<times> run" where
  "main_loop lib dir [] st = (None, st)"
| "main_loop lib dir (filename # files) st =
     (case main_body lib dir filename st of
        (Some e, st') \<Rightarrow> (Some e, st')
      | (None, st') \<Rightarrow> main_loop lib dir files st')"

definition eligible :: "'f stdlib \<Rightarrow> directory \<Rightarrow> str \<Rightarrow> bool" where
  "eligible lib dir f \<longleftrightarrow>
     isfile dir f \<and> endswith (lower lib f) SUPPORTED_EXTS \<and> \<not> startswith f (ascii ''output'')"

definition main :: "'f stdlib \<Rightarrow> directory \<Rightarrow> run \<Rightarrow> error option \<times> run" where
  "main lib dir st = main_loop lib dir (filter (eligible lib dir) (listdir dir)) st"

section \<open>Notions of the specification\<close>

text \<open>The position of the first occurrence of a value in a list (its length if there is none).\<close>

definition first_occurrence :: "'a list \<Rightarrow> 'a \<Rightarrow> nat" where
  "first_occurrence xs a = length (takeWhile (\<lambda>x. x \<noteq> a) xs)"

text \<open>
  The elements of a list that are not in \<open>seen\<close> and have not occurred before, in
  order: the first-occurrence deduplication of the list.
\<close>

fun first_occurrences :: "'a set \<Rightarrow> 'a list \<Rightarrow> 'a list" where
  "first_occurrences seen [] = []"
| "first_occurrences seen (e # es) =
     (if e \<in> seen then first_occurrences seen es
      else e # first_occurrences (insert e seen) es)"


text \<open>The string leaves of a document, from left to right.\<close>

primrec string_leaves :: "'f json \<Rightarrow> str list" where
  "string_leaves JNone = []"
| "string_leaves (JBool b) = []"
| "string_leaves (JInt i) = []"
| "string_leaves (JFloat x) = []"
| "string_leaves (JStr s) = [s]"
| "string_leaves (JList xs) = concat (map string_leaves xs)"
| "string_leaves (JDict kvs) = concat (map snd (map (map_prod id string_leaves) kvs))"

text \<open>Comments, declarations and processing instructions among the lexical items.\<close>

fun is_comment_decl_pi :: "html_token \<Rightarrow> bool" where
  "is_comment_decl_pi (TComment c) = True"
| "is_comment_decl_pi (TDecl d) = True"
| "is_comment_decl_pi (TPi d) = True"
| "is_comment_decl_pi (TUnknown_decl d) = True"
| "is_comment_decl_pi t = False"

section \<open>Instances for examples\<close>

text \<open>
  The chunks \<open>json.dump\<close> with \<open>ensure_ascii=False, indent=2\<close> writes for a list of strings
  without quotes, backslashes or control characters: \<open>[\<close>, a newline, two spaces and the
  first string in quotes; for each further string a comma, a newline, two spaces and
  the string in quotes; a newline; \<open>]\<close>.
\<close>

definition quote :: "str \<Rightarrow> str" where
  "quote s = [0x22] @ s @ [0x22]"

fun dump_strings :: "str list \<Rightarrow> str list" where
  "dump_strings [] = [ascii ''[]'']"
| "dump_strings (s # ss) =
     ([0x5B, 0x0A, 0x20, 0x20] @ quote s)
       # map (\<lambda>t. [0x2C, 0x0A, 0x20, 0x20] @ quote t) ss @ [[0x0A], [0x5D]]"

text \<open>
  The values of a Python \<open>float\<close>, for the examples: \<open>Finite m e\<close> is the number
  \<open>m * 2 ^ e\<close>, \<open>Infinity neg\<close> is \<open>inf\<close> or \<open>-inf\<close>. The number 1.5 is \<open>Finite 3 (-1)\<close>.
\<close>

datatype float = Finite int int | Infinity bool | NaN

text \<open>
  A stand-in for the library, used where the model is evaluated on an example. The JSON
  parser reads a file of the form \<open>[\<close>, newline, two spaces, a string in quotes, newline,
  \<open>]\<close> as the list of that string and the number 1.5, and the JSON serialiser writes the
  string leaves of a document as a list of strings, so that reading what is written
  for such a list gives the list back. Each other parser puts the whole content into
  one leaf and each other serialiser joins the leaves.
\<close>

definition example_lib :: "float stdlib" where
  "example_lib =
     \<lparr>json_load = (\<lambda>s. Inr (JList [JStr (drop 5 (take (length s - 3) s)), JFloat (Finite 3 (- 1))])),
      json_dump = (\<lambda>d. dump_strings (string_leaves d)),
      csv_reader = (\<lambda>s. Inr [[s]]),
      csv_writer = (\<lambda>rows. concat (concat rows)),
      ET_parse = (\<lambda>s. Inr (Element (ascii ''r'') [] (Some s) None [])),
      ET_write = (\<lambda>e. case etext e of None \<Rightarrow> [] | Some s \<Rightarrow> s),
      html_tokenize = (\<lambda>s. [TText s]),
      html_unescape = (\<lambda>s. s),
      html_split_refs = (\<lambda>s. [Data s]),
      splitext = (\<lambda>s. (takeWhile (\<lambda>c. c \<noteq> 0x2E) s, dropWhile (\<lambda>c. c \<noteq> 0x2E) s)),
      lower = (\<lambda>s. s)\<rparr>"

text \<open>A directory with one text file without emoji and one with an emoji.\<close>

definition example_dir :: directory where
  "example_dir =
     \<lparr>listdir = [ascii ''a.txt'', ascii ''b.txt''],
      isfile = (\<lambda>f. True),
      load_file = (\<lambda>f. if f = ascii ''a.txt'' then Inr (ascii ''Hi!'')
                       else Inr (ascii ''Hi '' @ [0x1F600]))\<rparr>"

section \<open>The mapping builder: proofs\<close>

lemma order_loop_first_occurrences:
  "order_loop es (seen, acc) = (seen \<union> set es, acc @ first_occurrences seen es)"
  by (induction es arbitrary: seen acc) auto

lemma build_loop_first_occurrences:
  "build_loop es (m, q) = build_loop (first_occurrences (dom m) es) (m, q)"
proof (induction es arbitrary: m q)
  case Nil
  then show ?case by simp
next
  case (Cons e es)
  show ?case
  proof (cases "e \<in> dom m")
    case True
    then show ?thesis using Cons.IH [of m q] by auto
  next
    case False
    show ?thesis
    proof (cases q)
      case Nil
      then show ?thesis using False by auto
    next
      case qc: (Cons x r)
      have d: "dom (m(e \<mapsto> x)) = insert e (dom m)" by simp
      have l: "build_loop (e # es) (m, q) = build_loop es (m(e \<mapsto> x), r @ [x])"
        using False qc by simp
      have n: "first_occurrences (dom m) (e # es) = e # first_occurrences (insert e (dom m)) es"
        using False by simp
      have "build_loop (first_occurrences (dom m) (e # es)) (m, q)
              = build_loop (first_occurrences (insert e (dom m)) es) (m(e \<mapsto> x), r @ [x])"
        unfolding n using False qc by simp
      also have "\<dots> = build_loop es (m(e \<mapsto> x), r @ [x])"
        using Cons.IH [of "m(e \<mapsto> x)" "r @ [x]"] unfolding d by (rule sym)
      finally show ?thesis using l by simp
    qed
  qed
qed

text \<open>
  On distinct emojis that are not yet keys, the loop maps the emoji at position \<open>i\<close> to
  the queue element at position \<open>i mod N\<close> and leaves the queue rotated by the number of
  emojis.
\<close>

lemma build_loop_distinct:
  "distinct es \<Longrightarrow> q \<noteq> [] \<Longrightarrow> set es \<inter> dom m = {} \<Longrightarrow>
   \<exists>m'. build_loop es (m, q) = Inr (m', rotate (length es) q) \<and> dom m' = dom m \<union> set es \<and>
     (\<forall>i<length es. m' (es ! i) = Some (q ! (i mod length q))) \<and>
     (\<forall>k. k \<notin> set es \<longrightarrow> m' k = m k)"
proof (induction es arbitrary: m q)
  case Nil
  then show ?case by simp
next
  case (Cons e es)
  from Cons.prems obtain x r where q: "q = x # r" by (cases q) auto
  have e: "e \<notin> dom m" "e \<notin> set es" "distinct es" using Cons.prems by auto
  have d: "set es \<inter> dom (m(e \<mapsto> x)) = {}" using Cons.prems by auto
  have r1: "r @ [x] = rotate1 q" using q by simp
  have q1: "rotate1 q \<noteq> []" using Cons.prems(2) by simp
  have "\<exists>m'. build_loop es (m(e \<mapsto> x), rotate1 q) = Inr (m', rotate (length es) (rotate1 q)) \<and>
     dom m' = dom (m(e \<mapsto> x)) \<union> set es \<and>
     (\<forall>i<length es. m' (es ! i) = Some (rotate1 q ! (i mod length (rotate1 q)))) \<and>
     (\<forall>k. k \<notin> set es \<longrightarrow> m' k = (m(e \<mapsto> x)) k)"
    using e(3) q1 d by (rule Cons.IH)
  then obtain m' where m':
    "build_loop es (m(e \<mapsto> x), rotate1 q) = Inr (m', rotate (length es) (rotate1 q))"
    "dom m' = dom (m(e \<mapsto> x)) \<union> set es"
    "\<forall>i<length es. m' (es ! i) = Some (rotate1 q ! (i mod length (rotate1 q)))"
    "\<forall>k. k \<notin> set es \<longrightarrow> m' k = (m(e \<mapsto> x)) k"
    by blast
  have step: "build_loop (e # es) (m, q) = Inr (m', rotate (length (e # es)) q)"
    using e(1) q m'(1) r1 by (simp add: rotate1_rotate_swap del: rotate1.simps)
  have idx: "m' ((e # es) ! i) = Some (q ! (i mod length q))" if "i < length (e # es)" for i
  proof (cases i)
    case 0
    then show ?thesis using m'(4) e(2) q by simp
  next
    case (Suc j)
    then have j: "j < length es" using that by simp
    have lt: "j mod length q < length q" using Cons.prems(2) by simp
    have "m' (es ! j) = Some (rotate1 q ! (j mod length q))" using m'(3) j by simp
    also have "rotate1 q ! (j mod length q) = q ! (Suc (j mod length q) mod length q)"
      using lt by (rule nth_rotate1)
    also have "Suc (j mod length q) mod length q = Suc j mod length q" by (rule mod_Suc_eq)
    finally show ?thesis using Suc by simp
  qed
  have rest: "\<forall>k. k \<notin> set (e # es) \<longrightarrow> m' k = m k" using m'(4) by auto
  have dm: "dom m' = dom m \<union> set (e # es)" using m'(2) by auto
  show ?case using step idx rest dm by blast
qed

lemma mset_rotate1_eq: "mset (rotate1 xs) = mset xs"
  by (cases xs) simp_all

lemma mset_rotate_eq: "mset (rotate n xs) = mset xs"
  by (induction n) (simp_all add: mset_rotate1_eq)

lemma pool_length: "length ANDROID_EMOJI_POOL = 100"
  by (simp add: ANDROID_EMOJI_POOL_def EMOJI_ANIMALS_NATURE_def EMOJI_FOOD_DRINK_def
      EMOJI_ACTIVITY_def EMOJI_OBJECTS_def EMOJI_PLACES_def)

lemma pool_distinct: "distinct ANDROID_EMOJI_POOL"
  by (simp add: ANDROID_EMOJI_POOL_def EMOJI_ANIMALS_NATURE_def EMOJI_FOOD_DRINK_def
      EMOJI_ACTIVITY_def EMOJI_OBJECTS_def EMOJI_PLACES_def)

text \<open>
  C1. For a sequence of distinct emojis no longer than the pool (100) and the fixed pool,
  \<open>build_emoji_map\<close> returns a map whose keys are the emojis of the sequence and in
  which no two distinct keys have the same value.
\<close>

theorem build_emoji_map_injective:
  assumes "distinct es" and "length es \<le> 100"
  shows "\<exists>m. build_emoji_map es ANDROID_EMOJI_POOL = Inr m \<and> dom m = set es \<and>
           (\<forall>k1 k2 v. m k1 = Some v \<and> m k2 = Some v \<longrightarrow> k1 = k2)"
proof -
  let ?P = ANDROID_EMOJI_POOL
  have ne: "?P \<noteq> []" using pool_length by auto
  have dj: "set es \<inter> dom (Map.empty :: emoji_map) = {}" by simp
  from build_loop_distinct [OF assms(1) ne dj] obtain m where
    m: "build_loop es (Map.empty, ?P) = Inr (m, rotate (length es) ?P)"
       "dom m = dom (Map.empty :: emoji_map) \<union> set es"
       "\<forall>i<length es. m (es ! i) = Some (?P ! (i mod length ?P))"
    by blast
  have r: "build_emoji_map es ?P = Inr m" using m(1) by (simp add: build_emoji_map_def)
  have d: "dom m = set es" using m(2) by simp
  have inj: "k1 = k2" if "m k1 = Some v" "m k2 = Some v" for k1 k2 v
  proof -
    from that d have "k1 \<in> set es" "k2 \<in> set es" by auto
    then obtain i j where ij: "i < length es" "es ! i = k1" "j < length es" "es ! j = k2"
      by (auto simp: in_set_conv_nth)
    then have lt: "i < length ?P" "j < length ?P" using assms(2) pool_length by auto
    have "Some (?P ! i) = m k1" using m(3) ij(1,2) lt by auto
    moreover have "Some (?P ! j) = m k2" using m(3) ij(3,4) lt by auto
    ultimately have "?P ! i = ?P ! j" using that by simp
    then have "i = j" using pool_distinct lt by (simp add: nth_eq_iff_index_eq)
    then show ?thesis using ij by simp
  qed
  show ?thesis using r d inj by blast
qed

theorem build_emoji_map_injective_witness:
  "distinct [[0x1F600], [0x2764 :: nat]] \<and> length [[0x1F600], [0x2764 :: nat]] \<le> 100 \<and>
   (\<exists>m. build_emoji_map [[0x1F600], [0x2764]] ANDROID_EMOJI_POOL = Inr m \<and>
        dom m = set [[0x1F600], [0x2764]] \<and>
        (\<forall>k1 k2 v. m k1 = Some v \<and> m k2 = Some v \<longrightarrow> k1 = k2))"
  using build_emoji_map_injective [of "[[0x1F600], [0x2764]]"] by simp

text \<open>
  C2, as stated, fails on the empty pool: \<open>popleft\<close> raises \<open>IndexError\<close> at the first
  emoji and no map is returned.
\<close>

theorem build_emoji_map_empty_pool:
  "build_emoji_map [[0x1F436]] [] = Inl IndexError"
  by (simp add: build_emoji_map_def)

text \<open>
  C2, amended. For distinct emojis and a non-empty pool of size \<open>N\<close>,
  \<open>build_emoji_map\<close> returns a map that gives the emoji at position \<open>i\<close> (from 0) the
  pool element at index \<open>i mod N\<close>; if there are more than \<open>N\<close> emojis, the one at
  position \<open>N\<close> has the replacement of the first; and after each of the steps the queue
  is the pool rotated by the number of steps, with the same members and length.
  On the empty pool and a non-empty sequence the result is \<open>IndexError\<close>.
\<close>

theorem build_emoji_map_round_robin:
  assumes "distinct es"
  shows "(pool \<noteq> [] \<longrightarrow>
           (\<exists>m. build_emoji_map es pool = Inr m \<and> dom m = set es \<and>
             (\<forall>i<length es. m (es ! i) = Some (pool ! (i mod length pool))) \<and>
             (length pool < length es \<longrightarrow> m (es ! length pool) = m (es ! 0)) \<and>
             (\<forall>k\<le>length es. \<exists>mk qk.
                 build_loop (take k es) (Map.empty, pool) = Inr (mk, qk) \<and>
                 qk = rotate k pool \<and> mset qk = mset pool \<and> length qk = length pool))) \<and>
         (pool = [] \<and> es \<noteq> [] \<longrightarrow> build_emoji_map es pool = Inl IndexError)"
proof (intro conjI impI)
  assume ne: "pool \<noteq> []"
  have dj: "set xs \<inter> dom (Map.empty :: emoji_map) = {}" for xs by simp
  from build_loop_distinct [OF assms ne dj] obtain m where
    m: "build_loop es (Map.empty, pool) = Inr (m, rotate (length es) pool)"
       "dom m = dom (Map.empty :: emoji_map) \<union> set es"
       "\<forall>i<length es. m (es ! i) = Some (pool ! (i mod length pool))"
    by blast
  have r: "build_emoji_map es pool = Inr m" using m(1) by (simp add: build_emoji_map_def)
  have d: "dom m = set es" using m(2) by simp
  have rep: "m (es ! length pool) = m (es ! 0)" if "length pool < length es"
  proof -
    have "0 < length es" using that by linarith
    then show ?thesis using m(3) that by simp
  qed
  have q: "\<exists>mk qk. build_loop (take k es) (Map.empty, pool) = Inr (mk, qk) \<and>
               qk = rotate k pool \<and> mset qk = mset pool \<and> length qk = length pool"
    if "k \<le> length es" for k
  proof -
    have dk: "distinct (take k es)" using assms(1) by simp
    have lk: "length (take k es) = k" using that by simp
    from build_loop_distinct [OF dk ne dj] obtain mk where
      "build_loop (take k es) (Map.empty, pool) = Inr (mk, rotate (length (take k es)) pool)"
      by blast
    then show ?thesis unfolding lk by (simp add: mset_rotate_eq)
  qed
  show "\<exists>m. build_emoji_map es pool = Inr m \<and> dom m = set es \<and>
             (\<forall>i<length es. m (es ! i) = Some (pool ! (i mod length pool))) \<and>
             (length pool < length es \<longrightarrow> m (es ! length pool) = m (es ! 0)) \<and>
             (\<forall>k\<le>length es. \<exists>mk qk.
                 build_loop (take k es) (Map.empty, pool) = Inr (mk, qk) \<and>
                 qk = rotate k pool \<and> mset qk = mset pool \<and> length qk = length pool)"
    using r d m(3) rep q by blast
next
  assume "pool = [] \<and> es \<noteq> []"
  then show "build_emoji_map es pool = Inl IndexError"
    by (cases es) (simp_all add: build_emoji_map_def)
qed

theorem build_emoji_map_round_robin_witness:
  "\<exists>m. build_emoji_map [[1], [2], [3]] [[10], [20]] = Inr m \<and>
       m [1] = Some [10] \<and> m [2] = Some [20] \<and> m [3] = Some [10] \<and>
       build_emoji_map [[1]] [] = Inl IndexError"
proof -
  have d: "distinct [[1], [2], [3 :: nat]]" by simp
  have n: "[[10], [20 :: nat]] \<noteq> []" by simp
  from build_emoji_map_round_robin [OF d, of "[[10], [20]]"] n
  obtain m where m: "build_emoji_map [[1], [2], [3]] [[10], [20]] = Inr m"
    "\<forall>i<length [[1], [2], [3 :: nat]]. m ([[1], [2], [3]] ! i) = Some ([[10], [20]] ! (i mod length [[10], [20 :: nat]]))"
    by blast
  have z: "2 mod Suc (Suc 0) = 0" by (simp add: numeral_2_eq_2)
  have "m [1] = Some [10]" using m(2) [rule_format, of 0] by simp
  moreover have "m [2] = Some [20]" using m(2) [rule_format, of 1] by simp
  moreover have "m [3] = Some [10]" using m(2) [rule_format, of 2] by (simp add: z)
  moreover have "build_emoji_map [[1]] [] = Inl IndexError"
    using build_emoji_map_round_robin [of "[[1]]" "[]"] by simp
  ultimately show ?thesis using m(1) by blast
qed

text \<open>
  C9. On any list of emojis and any pool, \<open>build_emoji_map\<close> returns what it returns on
  the list deduplicated by the loop of \<open>get_emojis_in_order\<close>: occurrences after the
  first are skipped and do not rotate the queue.
\<close>

theorem build_emoji_map_ignores_duplicates:
  "build_emoji_map es pool = build_emoji_map (snd (order_loop es ({}, []))) pool"
proof -
  have a: "build_loop es (Map.empty, pool) = build_loop (first_occurrences {} es) (Map.empty, pool)"
    using build_loop_first_occurrences [of es Map.empty pool] by simp
  show ?thesis
    unfolding build_emoji_map_def order_loop_first_occurrences using a by simp
qed


section \<open>The scanner and the substitution: proofs\<close>

lemma findall_skip:
  "\<forall>c\<in>set g. \<not> emoji_class c \<Longrightarrow> findall (g @ t) = findall t"
  by (induction g) simp_all

lemma sub_skip:
  "\<forall>c\<in>set g. \<not> emoji_class c \<Longrightarrow> sub f (g @ t) = g @ sub f t"
  by (induction g) simp_all

lemma takeWhile_run:
  "\<forall>c\<in>set r. emoji_class c \<Longrightarrow> t = [] \<or> \<not> emoji_class (hd t) \<Longrightarrow>
   takeWhile emoji_class (r @ t) = r"
  by (cases t) (auto simp: takeWhile_append2)

lemma dropWhile_run:
  "\<forall>c\<in>set r. emoji_class c \<Longrightarrow> t = [] \<or> \<not> emoji_class (hd t) \<Longrightarrow>
   dropWhile emoji_class (r @ t) = t"
  by (cases t) (auto simp: dropWhile_append2)

lemma findall_run:
  assumes "r \<noteq> []" and "\<forall>c\<in>set r. emoji_class c" and "t = [] \<or> \<not> emoji_class (hd t)"
  shows "findall (r @ t) = r # findall t"
proof -
  from assms(1) obtain c r' where r: "r = c # r'" by (cases r) auto
  have c: "emoji_class c" and r': "\<forall>c\<in>set r'. emoji_class c" using assms(2) r by auto
  show ?thesis
    using c takeWhile_run [OF r' assms(3)] dropWhile_run [OF r' assms(3)] r by simp
qed

lemma sub_run:
  assumes "r \<noteq> []" and "\<forall>c\<in>set r. emoji_class c" and "t = [] \<or> \<not> emoji_class (hd t)"
  shows "sub f (r @ t) = f r @ sub f t"
proof -
  from assms(1) obtain c r' where r: "r = c # r'" by (cases r) auto
  have c: "emoji_class c" and r': "\<forall>c\<in>set r'. emoji_class c" using assms(2) r by auto
  show ?thesis
    using c takeWhile_run [OF r' assms(3)] dropWhile_run [OF r' assms(3)] r by simp
qed

lemma findall_Nil: "findall t = [] \<Longrightarrow> \<forall>c\<in>set t. \<not> emoji_class c"
proof (induction t)
  case Nil
  then show ?case by simp
next
  case (Cons c cs)
  show ?case
  proof (cases "emoji_class c")
    case True
    then have "findall (c # cs) \<noteq> []" by simp
    then show ?thesis using Cons.prems by simp
  next
    case False
    then have "findall cs = []" using Cons.prems by simp
    then have "\<forall>c\<in>set cs. \<not> emoji_class c" by (rule Cons.IH)
    then show ?thesis using False by simp
  qed
qed

text \<open>
  C4. A text without a match is returned unchanged. In a text that consists of a part
  \<open>g\<close> without class members, a maximal run \<open>r\<close> of class members and a remainder (empty, or
  starting outside the class), the run is the first match; \<open>replace_emojis\<close> copies \<open>g\<close>,
  puts the map's value for \<open>r\<close> in the place of \<open>r\<close> if \<open>r\<close> is a key and \<open>r\<close> itself
  if it is not, and goes on with the remainder in the same way. The function is total:
  no input raises.
\<close>

theorem replace_emojis_contract:
  "(findall t = [] \<longrightarrow> replace_emojis t m = t) \<and>
   ((\<forall>c\<in>set g. \<not> emoji_class c) \<and> r \<noteq> [] \<and> (\<forall>c\<in>set r. emoji_class c) \<and>
    (rest = [] \<or> \<not> emoji_class (hd rest)) \<longrightarrow>
      findall (g @ r @ rest) = r # findall rest \<and>
      (\<forall>v. m r = Some v \<longrightarrow> replace_emojis (g @ r @ rest) m = g @ v @ replace_emojis rest m) \<and>
      (m r = None \<longrightarrow> replace_emojis (g @ r @ rest) m = g @ r @ replace_emojis rest m))"
proof (intro conjI impI)
  assume "findall t = []"
  then have "\<forall>c\<in>set t. \<not> emoji_class c" by (rule findall_Nil)
  then have "sub (replace_fn m) (t @ []) = t @ sub (replace_fn m) []" by (rule sub_skip)
  then show "replace_emojis t m = t" by (simp add: replace_emojis_def)
next
  assume a: "(\<forall>c\<in>set g. \<not> emoji_class c) \<and> r \<noteq> [] \<and> (\<forall>c\<in>set r. emoji_class c) \<and>
    (rest = [] \<or> \<not> emoji_class (hd rest))"
  then have g: "\<forall>c\<in>set g. \<not> emoji_class c" and r: "r \<noteq> []" "\<forall>c\<in>set r. emoji_class c"
    and t: "rest = [] \<or> \<not> emoji_class (hd rest)" by auto
  show "findall (g @ r @ rest) = r # findall rest"
    using findall_skip [OF g] findall_run [OF r t] by simp
  have s: "replace_emojis (g @ r @ rest) m = g @ replace_fn m r @ replace_emojis rest m"
    using sub_skip [OF g] sub_run [OF r t] by (simp add: replace_emojis_def)
  show "\<forall>v. m r = Some v \<longrightarrow> replace_emojis (g @ r @ rest) m = g @ v @ replace_emojis rest m"
    using s by (simp add: replace_fn_def)
  show "replace_emojis (g @ r @ rest) m = g @ r @ replace_emojis rest m" if "m r = None"
    using s that by (simp add: replace_fn_def)
qed

theorem replace_emojis_contract_witness:
  "replace_emojis (ascii ''Hi!'') [[0x1F436] \<mapsto> [0x1F98A]] = ascii ''Hi!'' \<and>
   findall (ascii ''I '' @ [0x1F436] @ ascii '' x'') = [[0x1F436]] \<and>
   replace_emojis (ascii ''I '' @ [0x1F436] @ ascii '' x'') [[0x1F436] \<mapsto> [0x1F98A]]
     = ascii ''I '' @ [0x1F98A] @ ascii '' x'' \<and>
   replace_emojis (ascii ''I '' @ [0x1F436] @ ascii '' x'') Map.empty
     = ascii ''I '' @ [0x1F436] @ ascii '' x''"
proof -
  have n: "findall (ascii ''Hi!'') = []" "findall (ascii '' x'') = []"
    by (simp_all add: ascii_def emoji_class_def)
  have h: "(\<forall>c\<in>set (ascii ''I ''). \<not> emoji_class c) \<and> [0x1F436 :: nat] \<noteq> [] \<and>
     (\<forall>c\<in>set [0x1F436]. emoji_class c) \<and>
     (ascii '' x'' = [] \<or> \<not> emoji_class (hd (ascii '' x'')))"
    by (simp add: ascii_def emoji_class_def)
  have x: "replace_emojis (ascii '' x'') m = ascii '' x''" for m
    using replace_emojis_contract [of "ascii '' x''" m] n by simp
  have 1: "replace_emojis (ascii ''Hi!'') [[0x1F436] \<mapsto> [0x1F98A]] = ascii ''Hi!''"
    using replace_emojis_contract [of "ascii ''Hi!''" "[[0x1F436] \<mapsto> [0x1F98A]]"] n by simp
  have 2: "findall (ascii ''I '' @ [0x1F436] @ ascii '' x'') = [[0x1F436]]"
    using replace_emojis_contract [of _ _ "ascii ''I ''" "[0x1F436]" "ascii '' x''"] h n by simp
  have 3: "replace_emojis (ascii ''I '' @ [0x1F436] @ ascii '' x'') [[0x1F436] \<mapsto> [0x1F98A]]
     = ascii ''I '' @ [0x1F98A] @ ascii '' x''"
    using replace_emojis_contract [of "[]" "[[0x1F436] \<mapsto> [0x1F98A]]" "ascii ''I ''" "[0x1F436]" "ascii '' x''"] h x
    by simp
  have 4: "replace_emojis (ascii ''I '' @ [0x1F436] @ ascii '' x'') Map.empty
     = ascii ''I '' @ [0x1F436] @ ascii '' x''"
    using replace_emojis_contract [of "[]" Map.empty "ascii ''I ''" "[0x1F436]" "ascii '' x''"] h x
    by simp
  show ?thesis using 1 2 3 4 by simp
qed

lemma first_occurrences_set: "set (first_occurrences seen es) = set es - seen"
  by (induction es arbitrary: seen) auto

lemma first_occurrences_distinct: "distinct (first_occurrences seen es)"
  by (induction es arbitrary: seen) (auto simp: first_occurrences_set)

lemma first_occurrence_Cons:
  "first_occurrence (e # es) a = (if a = e then 0 else Suc (first_occurrence es a))"
  by (auto simp: first_occurrence_def)

lemma first_occurrences_order:
  "sorted_wrt (<) (map (first_occurrence es) (first_occurrences seen es))"
proof (induction es arbitrary: seen)
  case Nil
  then show ?case by simp
next
  case (Cons e es)
  have shift: "map (first_occurrence (e # es)) xs = map (\<lambda>a. Suc (first_occurrence es a)) xs"
    if "e \<notin> set xs" for xs
    using that by (induction xs) (auto simp: first_occurrence_Cons)
  have mono: "sorted_wrt (<) (map (\<lambda>a. Suc (first_occurrence es a)) (first_occurrences s es))"
    for s
    using Cons.IH [of s] by (simp add: sorted_wrt_map)
  show ?case
  proof (cases "e \<in> seen")
    case True
    have eq: "first_occurrences seen (e # es) = first_occurrences seen es"
      using True by simp
    have ne: "e \<notin> set (first_occurrences seen es)"
      using True by (simp add: first_occurrences_set)
    show ?thesis unfolding eq shift [OF ne] by (rule mono)
  next
    case False
    have eq: "first_occurrences seen (e # es) = e # first_occurrences (insert e seen) es"
      using False by simp
    have ne: "e \<notin> set (first_occurrences (insert e seen) es)"
      by (simp add: first_occurrences_set)
    have hd: "first_occurrence (e # es) e = 0" by (simp add: first_occurrence_Cons)
    show ?thesis
      unfolding eq list.map hd shift [OF ne] using mono [of "insert e seen"] by simp
  qed
qed

text \<open>
  C5. For every text, the sequence \<open>get_emojis_in_order\<close> returns has no duplicates,
  its elements are exactly the scanner's matches in the text, and they stand in the
  order of their first occurrences among the matches (the positions of the first
  occurrences increase strictly along the sequence).
\<close>

theorem get_emojis_in_order_distinct_ordered:
  "distinct (get_emojis_in_order t) \<and>
   set (get_emojis_in_order t) = set (findall t) \<and>
   sorted_wrt (<) (map (first_occurrence (findall t)) (get_emojis_in_order t))"
  by (simp add: get_emojis_in_order_def order_loop_first_occurrences
      first_occurrences_distinct first_occurrences_set first_occurrences_order)

text \<open>
  C7. A text of two adjacent code points of the class is one match, the two code points
  together. It is one element of the distinct-emoji sequence and one key of the map
  built from it, and \<open>replace_emojis\<close> looks up the pair as a whole: entries of the map
  for the single code points are not used.
\<close>

theorem adjacent_emojis_one_run:
  assumes "emoji_class a" and "emoji_class b"
  shows "extract_emojis [a, b] = [[a, b]] \<and>
         get_emojis_in_order [a, b] = [[a, b]] \<and>
         build_emoji_map (get_emojis_in_order [a, b]) (p # ps) = Inr [[a, b] \<mapsto> p] \<and>
         replace_emojis [a, b] m = (case m [a, b] of Some v \<Rightarrow> v | None \<Rightarrow> [a, b])"
  using assms
  by (simp add: extract_emojis_def get_emojis_in_order_def build_emoji_map_def
      replace_emojis_def replace_fn_def)

theorem adjacent_emojis_one_run_witness:
  "emoji_class 0x1F436 \<and> emoji_class 0x1F34E \<and>
   extract_emojis [0x1F436, 0x1F34E] = [[0x1F436, 0x1F34E]] \<and>
   replace_emojis [0x1F436, 0x1F34E] [[0x1F436] \<mapsto> [0x1F98A], [0x1F34E] \<mapsto> [0x1F353]]
     = [0x1F436, 0x1F34E]"
proof -
  have c: "emoji_class 0x1F436" "emoji_class 0x1F34E" by (simp_all add: emoji_class_def)
  show ?thesis
    using c adjacent_emojis_one_run [OF c, of "[]" "[]" "[[0x1F436] \<mapsto> [0x1F98A], [0x1F34E] \<mapsto> [0x1F353]]"]
    by simp
qed


section \<open>The format handlers: proofs\<close>







lemma replace_emojis_amp: "replace_emojis (ascii ''&'') m = ascii ''&''"
  by (simp add: replace_emojis_def ascii_def emoji_class_def)

text \<open>
  C3 does not hold of the code. \<open>MyHTMLParser\<close> calls \<open>super().__init__()\<close> without
  \<open>convert_charrefs=False\<close>, so the parser passes character data to \<open>handle_data\<close> with
  its references decoded and never calls \<open>handle_entityref\<close> or \<open>handle_charref\<close>. On
  the input \<open><p>&amp;</p>\<close>, which the tokenizer splits into the start tag, the
  character data \<open>&amp;\<close> and the end tag, and in which \<open>html.unescape\<close> decodes
  \<open>&amp;\<close> to \<open>&\<close>, the handler writes \<open><p>&</p>\<close>.
\<close>

theorem process_html_file_decodes_references:
  assumes "html_tokenize lib (ascii ''<p>&amp;</p>'')
             = [TStarttag (ascii ''p'') [], TText (ascii ''&amp;''), TEndtag (ascii ''p'')]"
      and "html_unescape lib (ascii ''&amp;'') = ascii ''&''"
  shows "process_html_file lib (ascii ''<p>&amp;</p>'') m = Inr (ascii ''<p>&</p>'')"
proof -
  have "process_html_file lib (ascii ''<p>&amp;</p>'') m
      = Inr (ascii ''<'' @ ascii ''p'' @ ascii ''>'' @ replace_emojis (ascii ''&'') m
             @ ascii ''</'' @ ascii ''p'' @ ascii ''>'')"
    using assms
    by (simp add: process_html_file_def feed_def MyHTMLParser_init_def get_html_def
        handle_starttag_def handle_endtag_def handle_data_def)
  then show ?thesis
    unfolding replace_emojis_amp by (simp add: ascii_def)
qed

theorem process_html_file_decodes_references_witness:
  "process_html_file
     (example_lib\<lparr>html_tokenize :=
          (\<lambda>s. [TStarttag (ascii ''p'') [], TText (ascii ''&amp;''), TEndtag (ascii ''p'')]),
        html_unescape := (\<lambda>s. ascii ''&'')\<rparr>)
     (ascii ''<p>&amp;</p>'') Map.empty
   = Inr (ascii ''<p>&</p>'')"
  using process_html_file_decodes_references
    [of "example_lib\<lparr>html_tokenize :=
          (\<lambda>s. [TStarttag (ascii ''p'') [], TText (ascii ''&amp;''), TEndtag (ascii ''p'')]),
        html_unescape := (\<lambda>s. ascii ''&'')\<rparr>" Map.empty]
  by simp

lemma foldl_handle_filter:
  "foldl handle p (concat (map (goahead lib cc) (filter (\<lambda>t. \<not> is_comment_decl_pi t) toks)))
     = foldl handle p (concat (map (goahead lib cc) toks))"
proof (induction toks arbitrary: p)
  case Nil
  then show ?case by simp
next
  case (Cons t toks)
  show ?case
  proof (cases "is_comment_decl_pi t")
    case True
    then have "foldl handle p (goahead lib cc t) = p"
      by (cases t) simp_all
    then show ?thesis using True Cons.IH [of p] by simp
  next
    case False
    then show ?thesis using Cons.IH by simp
  qed
qed

text \<open>
  C10. A comment, a declaration, an unknown declaration or a processing instruction in
  the input leaves the parser as it was, and the output for a sequence of lexical items is
  the output for the sequence without its comments, declarations and processing
  instructions.
\<close>

theorem process_html_omits_comments:
  "feed lib p [TComment c] = p \<and> feed lib p [TDecl c] = p \<and> feed lib p [TPi c] = p \<and>
   feed lib p [TUnknown_decl c] = p \<and>
   get_html (feed lib (MyHTMLParser_init m) toks)
     = get_html (feed lib (MyHTMLParser_init m) (filter (\<lambda>t. \<not> is_comment_decl_pi t) toks))"
  by (simp add: feed_def foldl_handle_filter)

section \<open>The driver: proofs\<close>

text \<open>
  C8. For a file that can be read and whose text has no match of the scanner, the loop
  body prints the processing notice and the skip notice, saves no file and raises
  nothing, and the loop goes on with the next file.
\<close>

theorem main_skips_file_without_emojis:
  assumes "load_file dir filename = Inr src" and "extract_emojis src = []"
  shows "main_body lib dir filename st
           = (None, st\<lparr>printed := printed st @ [Processing filename, No_emojis_found filename]\<rparr>) \<and>
         saved (snd (main_body lib dir filename st)) = saved st \<and>
         main_loop lib dir (filename # files) st
           = main_loop lib dir files
               (st\<lparr>printed := printed st @ [Processing filename, No_emojis_found filename]\<rparr>)"
proof -
  have e: "get_emojis_in_order src = []"
    using assms(2) by (simp add: get_emojis_in_order_def extract_emojis_def)
  have b: "main_body lib dir filename st
           = (None, st\<lparr>printed := printed st @ [Processing filename, No_emojis_found filename]\<rparr>)"
    using assms(1) e by (simp add: main_body_def print_notice_def)
  have l: "main_loop lib dir (filename # files) st
           = main_loop lib dir files
               (st\<lparr>printed := printed st @ [Processing filename, No_emojis_found filename]\<rparr>)"
    using b by simp
  show ?thesis using b l by simp
qed

theorem main_skips_file_without_emojis_witness:
  "load_file example_dir (ascii ''a.txt'') = Inr (ascii ''Hi!'') \<and>
   extract_emojis (ascii ''Hi!'') = [] \<and>
   main_body example_lib example_dir (ascii ''a.txt'') \<lparr>saved = Map.empty, printed = []\<rparr>
     = (None, \<lparr>saved = Map.empty,
               printed = [Processing (ascii ''a.txt''), No_emojis_found (ascii ''a.txt'')]\<rparr>)"
proof -
  have l: "load_file example_dir (ascii ''a.txt'') = Inr (ascii ''Hi!'')"
    by (simp add: example_dir_def)
  have n: "extract_emojis (ascii ''Hi!'') = []"
    by (simp add: extract_emojis_def ascii_def emoji_class_def)
  show ?thesis
    using l n main_skips_file_without_emojis [OF l n, of example_lib "\<lparr>saved = Map.empty, printed = []\<rparr>" "[]"]
    by simp
qed


end
